theory Spec2Isabelle
  imports Main
begin

section \<open>The Apollo client setup of realtime-poll (src/realtime-poll/src/apollo.js)\<close>

text \<open>
  The module derives two endpoint URIs from the page's protocol, classifies every outgoing
  operation with \<open>splitter\<close> and hands it to one of two links through \<open>split\<close>.
  What the module reads from its environment is a parameter of the model:
  \<^item> \<open>window.location.protocol\<close> is the argument \<open>protocol\<close>;
  \<^item> the library function \<open>getMainDefinition\<close> (of @apollo/client/utilities, not part of
    the repository) is the argument \<open>getMainDefinition\<close>: any function that, given the
    query document, returns a JavaScript value or raises an exception.
\<close>

subsection \<open>JavaScript values\<close>

text \<open>
  The values the classifier can meet. An object is the list of its own properties, an
  array the list of its elements; numbers are integers, since only their truthiness is
  observed (\<open>NaN\<close> behaves as \<open>0\<close> does).
\<close>

datatype js_value =
    JUndefined
  | JNull
  | JBool bool
  | JNum int
  | JStr string
  | JArr "js_value list"
  | JObj "(string \<times> js_value) list"

text \<open>
  The exceptions: the TypeError of the language (a property read on \<open>undefined\<close> or
  \<open>null\<close>) and the invariant violation that the library's lookup raises.
\<close>

datatype js_error = TypeError | InvariantError

text \<open>ToBoolean: \<open>undefined\<close>, \<open>null\<close>, \<open>false\<close>, \<open>0\<close> and the empty string are falsy.\<close>

fun truthy :: "js_value \<Rightarrow> bool" where
  "truthy JUndefined = False"
| "truthy JNull = False"
| "truthy (JBool b) = b"
| "truthy (JNum n) = (n \<noteq> 0)"
| "truthy (JStr s) = (s \<noteq> [])"
| "truthy (JArr xs) = True"
| "truthy (JObj fs) = True"

text \<open>\<open>a || b\<close>: the left operand when it is truthy, else the right one.\<close>

definition js_or :: "js_value \<Rightarrow> js_value \<Rightarrow> js_value" where
  "js_or a b = (if truthy a then a else b)"

text \<open>
  Reading a property while destructuring, \<open>const { k } = v\<close>: a TypeError on \<open>undefined\<close>
  and \<open>null\<close>; the property's value on an object that has it; \<open>undefined\<close> otherwise
  (the names read here, \<open>kind\<close> and \<open>operation\<close>, are on no built-in prototype).
\<close>

fun get_property :: "js_value \<Rightarrow> string \<Rightarrow> js_error + js_value" where
  "get_property JUndefined k = Inl TypeError"
| "get_property JNull k = Inl TypeError"
| "get_property (JObj fs) k = Inr (case map_of fs k of None \<Rightarrow> JUndefined | Some v \<Rightarrow> v)"
| "get_property v k = Inr JUndefined"

subsection \<open>Endpoint derivation\<close>

definition GRAPHQL_ENDPOINT :: string where
  "GRAPHQL_ENDPOINT = ''genuine-macaw-22.hasura.app''"

text \<open>
  \<open>const scheme = (proto) => window.location.protocol === "https:" ? `${proto}s` : proto\<close>
\<close>

definition scheme :: "string \<Rightarrow> string \<Rightarrow> string" where
  "scheme protocol proto = (if protocol = ''https:'' then proto @ ''s'' else proto)"

text \<open>
  The two template literals, with the host name as an argument; the module's constants
  \<open>wsURI\<close> and \<open>httpURL\<close> are their values at \<open>GRAPHQL_ENDPOINT\<close>.
\<close>

definition wsURI_of :: "string \<Rightarrow> string \<Rightarrow> string" where
  "wsURI_of protocol endpoint = scheme protocol ''ws'' @ ''://'' @ endpoint @ ''/v1/graphql''"

definition httpURL_of :: "string \<Rightarrow> string \<Rightarrow> string" where
  "httpURL_of protocol endpoint =
     scheme protocol ''https'' @ ''://'' @ endpoint @ ''/v1/graphql''"

definition wsURI :: "string \<Rightarrow> string" where
  "wsURI protocol = wsURI_of protocol GRAPHQL_ENDPOINT"

definition httpURL :: "string \<Rightarrow> string" where
  "httpURL protocol = httpURL_of protocol GRAPHQL_ENDPOINT"

subsection \<open>Operations and the classifier\<close>

text \<open>
  The operation object a link receives: the query document and the runtime data that
  travels with it (the context holds the request headers).
\<close>

record gql_operation =
  query :: js_value
  variables :: js_value
  operationName :: js_value
  extensions :: js_value
  op_context :: js_value

text \<open>
  \<^verbatim>\<open>
  const splitter = ({ query }) => {
      const { kind, operation } = getMainDefinition(query) || {};
      const isSubscription =
        kind === "OperationDefinition" && operation === "subscription";
      return isSubscription;
    };
  \<close>
  The function has no \<open>try\<close>: an exception of the lookup leaves \<open>splitter\<close> as it is,
  before \<open>|| {}\<close> is evaluated.
\<close>

definition splitter ::
  "(js_value \<Rightarrow> js_error + js_value) \<Rightarrow> gql_operation \<Rightarrow> js_error + bool" where
  "splitter getMainDefinition opn =
     (case getMainDefinition (query opn) of
        Inl e \<Rightarrow> Inl e
      | Inr m \<Rightarrow>
          (let d = js_or m (JObj []) in
           case get_property d ''kind'' of
             Inl e \<Rightarrow> Inl e
           | Inr kind \<Rightarrow>
               (case get_property d ''operation'' of
                  Inl e \<Rightarrow> Inl e
                | Inr operation \<Rightarrow>
                    (let isSubscription =
                           (kind = JStr ''OperationDefinition'' \<and>
                            operation = JStr ''subscription'')
                     in Inr isSubscription))))"

subsection \<open>The two links and their composition\<close>

datatype transport = STREAMING | REQUEST_RESPONSE

text \<open>
  A link is modelled by the transports an operation is sent over: \<open>wsLink\<close> sends it over
  the WebSocket connection, \<open>httpLink\<close> over HTTP. \<open>split test left right\<close> is the
  library's composition: the operation goes to \<open>left\<close> when \<open>test\<close> holds of it and to
  \<open>right\<close> otherwise; an exception of \<open>test\<close> reaches the caller, and the operation is
  then sent over neither.
\<close>

definition wsLink :: "gql_operation \<Rightarrow> transport list" where
  "wsLink opn = [STREAMING]"

definition httpLink :: "gql_operation \<Rightarrow> transport list" where
  "httpLink opn = [REQUEST_RESPONSE]"

definition split ::
  "(gql_operation \<Rightarrow> js_error + bool) \<Rightarrow> (gql_operation \<Rightarrow> transport list) \<Rightarrow>
   (gql_operation \<Rightarrow> transport list) \<Rightarrow> gql_operation \<Rightarrow> js_error + transport list" where
  "split test left right opn =
     (case test opn of
        Inl e \<Rightarrow> Inl e
      | Inr b \<Rightarrow> Inr (if b then left opn else right opn))"

text \<open>\<open>const link = split(splitter, wsLink, httpLink)\<close>\<close>

definition link ::
  "(js_value \<Rightarrow> js_error + js_value) \<Rightarrow> gql_operation \<Rightarrow> js_error + transport list" where
  "link getMainDefinition = split (splitter getMainDefinition) wsLink httpLink"

subsection \<open>The shape of a main definition, in the specification's words\<close>

text \<open>
  The kind and the declared operation type of a main definition: the value of the
  property when the lookup gave an object that has it, \<open>undefined\<close> in every other case.
\<close>

definition main_kind :: "js_value \<Rightarrow> js_value" where
  "main_kind d =
     (case d of
        JObj fs \<Rightarrow> (case map_of fs ''kind'' of None \<Rightarrow> JUndefined | Some v \<Rightarrow> v)
      | _ \<Rightarrow> JUndefined)"

definition main_operation :: "js_value \<Rightarrow> js_value" where
  "main_operation d =
     (case d of
        JObj fs \<Rightarrow> (case map_of fs ''operation'' of None \<Rightarrow> JUndefined | Some v \<Rightarrow> v)
      | _ \<Rightarrow> JUndefined)"

definition is_subscription_shape :: "js_value \<Rightarrow> bool" where
  "is_subscription_shape d =
     (main_kind d = JStr ''OperationDefinition'' \<and> main_operation d = JStr ''subscription'')"

subsection \<open>The library's lookup, for the examples\<close>

text \<open>
  Every theorem below holds for any lookup. The examples need a concrete one, and use the
  lookup of the library as it is documented. \<open>checkDocument\<close> raises unless its argument
  is a document whose definitions, fragments apart, are operation definitions and at most
  one. \<open>getMainDefinition\<close> then returns the first definition that is a query, a mutation
  or a subscription, else the first fragment definition, and raises when there is neither.
  So it returns a definition node or raises; it never returns \<open>null\<close> or \<open>undefined\<close>.
  (The entries of \<open>definitions\<close> are taken to be objects.)
\<close>

definition doc_definitions :: "js_value \<Rightarrow> js_value list option" where
  "doc_definitions doc =
     (case doc of
        JObj fs \<Rightarrow> (case map_of fs ''definitions'' of Some (JArr ds) \<Rightarrow> Some ds | _ \<Rightarrow> None)
      | _ \<Rightarrow> None)"

definition checkDocument :: "js_value \<Rightarrow> js_error + js_value list" where
  "checkDocument doc =
     (if main_kind doc \<noteq> JStr ''Document'' then Inl InvariantError
      else case doc_definitions doc of
        None \<Rightarrow> Inl TypeError
      | Some ds \<Rightarrow>
          (let operations = filter (\<lambda>d. main_kind d \<noteq> JStr ''FragmentDefinition'') ds in
           if list_ex (\<lambda>d. main_kind d \<noteq> JStr ''OperationDefinition'') operations
           then Inl InvariantError
           else if 1 < length operations then Inl InvariantError
           else Inr ds))"

fun find_main :: "js_value list \<Rightarrow> js_value option \<Rightarrow> js_error + js_value" where
  "find_main [] fragmentDefinition =
     (case fragmentDefinition of Some f \<Rightarrow> Inr f | None \<Rightarrow> Inl InvariantError)"
| "find_main (d # ds) fragmentDefinition =
     (if main_kind d = JStr ''OperationDefinition'' \<and>
         (main_operation d = JStr ''query'' \<or> main_operation d = JStr ''mutation'' \<or>
          main_operation d = JStr ''subscription'')
      then Inr d
      else if main_kind d = JStr ''FragmentDefinition'' \<and> fragmentDefinition = None
      then find_main ds (Some d)
      else find_main ds fragmentDefinition)"

definition library_getMainDefinition :: "js_value \<Rightarrow> js_error + js_value" where
  "library_getMainDefinition doc =
     (case checkDocument doc of
        Inl e \<Rightarrow> Inl e
      | Inr ds \<Rightarrow> find_main ds None)"

subsection \<open>Example documents and operations\<close>

definition document :: "js_value list \<Rightarrow> js_value" where
  "document ds = JObj [(''kind'', JStr ''Document''), (''definitions'', JArr ds)]"

definition subscription_definition :: js_value where
  "subscription_definition =
     JObj [(''kind'', JStr ''OperationDefinition''), (''operation'', JStr ''subscription'')]"

definition mutation_definition :: js_value where
  "mutation_definition =
     JObj [(''kind'', JStr ''OperationDefinition''), (''operation'', JStr ''mutation'')]"

definition query_definition :: js_value where
  "query_definition =
     JObj [(''kind'', JStr ''OperationDefinition''), (''operation'', JStr ''query'')]"

definition schema_definition :: js_value where
  "schema_definition = JObj [(''kind'', JStr ''ObjectTypeDefinition'')]"

definition example_operation :: "js_value \<Rightarrow> js_value \<Rightarrow> gql_operation" where
  "example_operation doc vars =
     \<lparr>query = doc, variables = vars, operationName = JUndefined,
      extensions = JObj [], op_context = JObj []\<rparr>"

section \<open>Properties\<close>

subsection \<open>Helper lemmas\<close>

lemma get_property_guarded:
  "get_property (js_or d (JObj [])) k =
     Inr (case d of
            JObj fs \<Rightarrow> (case map_of fs k of None \<Rightarrow> JUndefined | Some v \<Rightarrow> v)
          | _ \<Rightarrow> JUndefined)"
  by (cases d) (simp_all add: js_or_def)

lemma splitter_shape:
  "splitter getMainDefinition opn =
     (case getMainDefinition (query opn) of
        Inl e \<Rightarrow> Inl e
      | Inr d \<Rightarrow> Inr (is_subscription_shape d))"
  by (simp add: splitter_def Let_def get_property_guarded is_subscription_shape_def
      main_kind_def main_operation_def split: sum.splits)

lemma link_shape:
  "link getMainDefinition opn =
     (case getMainDefinition (query opn) of
        Inl e \<Rightarrow> Inl e
      | Inr d \<Rightarrow> Inr [if is_subscription_shape d then STREAMING else REQUEST_RESPONSE])"
  by (simp add: link_def split_def splitter_shape wsLink_def httpLink_def split: sum.splits)

lemma js_or_empty_object_defined:
  "js_or d (JObj []) \<noteq> JUndefined \<and> js_or d (JObj []) \<noteq> JNull"
  by (cases d) (simp_all add: js_or_def)

lemma scheme_plain: "protocol \<noteq> ''https:'' \<Longrightarrow> scheme protocol proto = proto"
  by (simp add: scheme_def)

lemma scheme_encrypted: "scheme ''https:'' proto = proto @ ''s''"
  by (simp add: scheme_def)

lemmas example_defs =
  library_getMainDefinition_def checkDocument_def doc_definitions_def document_def
  subscription_definition_def mutation_definition_def query_definition_def
  schema_definition_def example_operation_def main_kind_def main_operation_def
  is_subscription_shape_def

lemma library_lookup_subscription:
  "library_getMainDefinition (document [subscription_definition]) = Inr subscription_definition"
  by (simp add: example_defs)

lemma library_lookup_mutation:
  "library_getMainDefinition (document [mutation_definition]) = Inr mutation_definition"
  by (simp add: example_defs)

lemma library_lookup_no_definition:
  "library_getMainDefinition (document []) = Inl InvariantError"
  by (simp add: example_defs)

lemma library_lookup_schema_only:
  "library_getMainDefinition (document [schema_definition]) = Inl InvariantError"
  by (simp add: example_defs)

lemma library_lookup_ambiguous:
  "library_getMainDefinition (document [query_definition, subscription_definition])
     = Inl InvariantError"
  by (simp add: example_defs)

lemma library_lookup_not_a_document:
  "library_getMainDefinition JUndefined = Inl InvariantError
   \<and> library_getMainDefinition JNull = Inl InvariantError"
  by (simp add: example_defs)

subsection \<open>Routing\<close>

text \<open>
  C1, as stated, fails: a malformed document, whose only definition is a schema type
  definition, is not sent over the request/response transport. The lookup raises, the
  exception leaves \<open>splitter\<close> and \<open>split\<close>, and the operation reaches no transport.
\<close>

theorem link_schema_only_document_counterexample:
  "link library_getMainDefinition (example_operation (document [schema_definition]) JNull)
     = Inl InvariantError
   \<and> link library_getMainDefinition (example_operation (document [schema_definition]) JNull)
     \<noteq> Inr [REQUEST_RESPONSE]"
  by (simp add: link_shape example_defs)

text \<open>
  C1, amended. For every operation on whose document the lookup returns a value,
  \<open>splitter\<close> answers true, and the composed link sends the operation over the streaming
  transport, exactly when the main definition has kind "OperationDefinition" and operation
  type "subscription"; every other returned shape goes over the request/response
  transport, so a main definition of operation type "mutation" is never sent over the
  streaming transport. When the lookup raises, \<open>splitter\<close> and the link raise the same
  exception.
\<close>

theorem splitter_streaming_iff_subscription:
  "(getMainDefinition (query opn) = Inr d \<longrightarrow>
      splitter getMainDefinition opn =
        Inr (main_kind d = JStr ''OperationDefinition'' \<and>
             main_operation d = JStr ''subscription'')
      \<and> (link getMainDefinition opn = Inr [STREAMING]) =
          (main_kind d = JStr ''OperationDefinition'' \<and>
           main_operation d = JStr ''subscription'')
      \<and> (link getMainDefinition opn = Inr [REQUEST_RESPONSE]) =
          (\<not> (main_kind d = JStr ''OperationDefinition'' \<and>
              main_operation d = JStr ''subscription''))
      \<and> (main_operation d = JStr ''mutation'' \<longrightarrow>
           link getMainDefinition opn = Inr [REQUEST_RESPONSE]))
   \<and> (getMainDefinition (query opn) = Inl e \<longrightarrow>
        splitter getMainDefinition opn = Inl e \<and> link getMainDefinition opn = Inl e)"
proof (intro conjI impI)
  assume r: "getMainDefinition (query opn) = Inr d"
  have s: "splitter getMainDefinition opn = Inr (is_subscription_shape d)"
    by (simp add: splitter_shape r)
  have l: "link getMainDefinition opn =
      Inr [if is_subscription_shape d then STREAMING else REQUEST_RESPONSE]"
    by (simp add: link_shape r)
  show "splitter getMainDefinition opn =
        Inr (main_kind d = JStr ''OperationDefinition'' \<and>
             main_operation d = JStr ''subscription'')"
    using s by (simp add: is_subscription_shape_def)
  show "(link getMainDefinition opn = Inr [STREAMING]) =
          (main_kind d = JStr ''OperationDefinition'' \<and>
           main_operation d = JStr ''subscription'')"
    unfolding l by (simp add: is_subscription_shape_def)
  show "(link getMainDefinition opn = Inr [REQUEST_RESPONSE]) =
          (\<not> (main_kind d = JStr ''OperationDefinition'' \<and>
              main_operation d = JStr ''subscription''))"
    unfolding l by (simp add: is_subscription_shape_def)
  show "link getMainDefinition opn = Inr [REQUEST_RESPONSE]"
    if "main_operation d = JStr ''mutation''"
    unfolding l using that by (simp add: is_subscription_shape_def)
next
  assume "getMainDefinition (query opn) = Inl e"
  then show "splitter getMainDefinition opn = Inl e" by (simp add: splitter_shape)
next
  assume "getMainDefinition (query opn) = Inl e"
  then show "link getMainDefinition opn = Inl e" by (simp add: link_shape)
qed

theorem splitter_streaming_iff_subscription_witness:
  "link library_getMainDefinition (example_operation (document [mutation_definition]) JNull)
     = Inr [REQUEST_RESPONSE]
   \<and> splitter library_getMainDefinition
       (example_operation (document [mutation_definition]) JNull) = Inr False
   \<and> link library_getMainDefinition
       (example_operation (document [subscription_definition]) JNull) = Inr [STREAMING]
   \<and> link library_getMainDefinition (example_operation (document []) JNull)
     = Inl InvariantError"
  using splitter_streaming_iff_subscription
          [where getMainDefinition = library_getMainDefinition
             and opn = "example_operation (document [mutation_definition]) JNull"
             and d = mutation_definition and e = InvariantError]
        splitter_streaming_iff_subscription
          [where getMainDefinition = library_getMainDefinition
             and opn = "example_operation (document [subscription_definition]) JNull"
             and d = subscription_definition and e = InvariantError]
        splitter_streaming_iff_subscription
          [where getMainDefinition = library_getMainDefinition
             and opn = "example_operation (document []) JNull"
             and d = JNull and e = InvariantError]
  by (simp add: example_defs)

text \<open>
  C4, as stated, fails: on a document with no definition the main definition cannot be
  extracted, and the operation is not classified as request/response. The lookup raises
  and so does \<open>splitter\<close>; nothing is defaulted.
\<close>

theorem splitter_no_definition_counterexample:
  "splitter library_getMainDefinition (example_operation (document []) JNull)
     = Inl InvariantError
   \<and> splitter library_getMainDefinition (example_operation (document []) JNull) \<noteq> Inr False
   \<and> link library_getMainDefinition (example_operation (document []) JNull)
     \<noteq> Inr [REQUEST_RESPONSE]"
  by (simp add: splitter_shape link_shape example_defs)

text \<open>
  C4, amended. When the lookup returns \<open>null\<close> or \<open>undefined\<close>, the classifier returns
  false without an error and the operation goes over the request/response transport.
  When the lookup fails by raising, as the library's lookup does on a document with no
  extractable main definition, the exception leaves \<open>splitter\<close> and the link unchanged:
  that failure is not defaulted.
\<close>

theorem splitter_absent_definition:
  "(getMainDefinition (query opn) = Inr JNull \<or>
    getMainDefinition (query opn) = Inr JUndefined \<longrightarrow>
      splitter getMainDefinition opn = Inr False
      \<and> link getMainDefinition opn = Inr [REQUEST_RESPONSE])
   \<and> (getMainDefinition (query opn) = Inl e \<longrightarrow>
        splitter getMainDefinition opn = Inl e \<and> link getMainDefinition opn = Inl e)"
  by (auto simp: splitter_shape link_shape is_subscription_shape_def main_kind_def)

theorem splitter_absent_definition_witness:
  "splitter (\<lambda>doc. Inr JNull) (example_operation (document []) JNull) = Inr False
   \<and> link (\<lambda>doc. Inr JNull) (example_operation (document []) JNull)
       = Inr [REQUEST_RESPONSE]
   \<and> splitter (\<lambda>doc. Inr JUndefined) (example_operation (document []) JNull) = Inr False
   \<and> link (\<lambda>doc. Inr JUndefined) (example_operation (document []) JNull)
       = Inr [REQUEST_RESPONSE]
   \<and> splitter library_getMainDefinition (example_operation JNull JNull)
       = Inl InvariantError
   \<and> link library_getMainDefinition (example_operation JNull JNull) = Inl InvariantError"
  using splitter_absent_definition
          [where getMainDefinition = "\<lambda>doc. Inr JNull"
             and opn = "example_operation (document []) JNull" and e = InvariantError]
        splitter_absent_definition
          [where getMainDefinition = "\<lambda>doc. Inr JUndefined"
             and opn = "example_operation (document []) JNull" and e = InvariantError]
        splitter_absent_definition
          [where getMainDefinition = library_getMainDefinition
             and opn = "example_operation JNull JNull" and e = InvariantError]
  by (simp add: example_defs)

text \<open>
  C5, as stated, fails: an ambiguous document, with a query and a subscription, is sent
  over neither transport. The lookup raises inside the test of \<open>split\<close>.
\<close>

theorem link_ambiguous_document_counterexample:
  "link library_getMainDefinition
     (example_operation (document [query_definition, subscription_definition]) JNull)
     = Inl InvariantError
   \<and> link library_getMainDefinition
       (example_operation (document [query_definition, subscription_definition]) JNull)
     \<noteq> Inr [STREAMING]
   \<and> link library_getMainDefinition
       (example_operation (document [query_definition, subscription_definition]) JNull)
     \<noteq> Inr [REQUEST_RESPONSE]"
  by (simp add: link_shape example_defs)

text \<open>
  C5, amended. Every operation on whose document the lookup returns is sent over exactly
  one of the two transports; no operation is ever sent over both; when the lookup raises,
  the link raises the same exception and the operation is sent over neither. The outcome
  is fixed by the query document: operations with the same document get the same outcome,
  operations whose main definitions have the same kind and operation type go over the same
  transport, and changing the variables, name, extensions or context changes nothing.
\<close>

theorem link_exactly_one_transport:
  "(getMainDefinition (query a) = Inr da \<longrightarrow>
      link getMainDefinition a = Inr [STREAMING] \<or>
      link getMainDefinition a = Inr [REQUEST_RESPONSE])
   \<and> (getMainDefinition (query a) = Inl e \<longrightarrow> link getMainDefinition a = Inl e)
   \<and> (link getMainDefinition a = Inr ts \<longrightarrow> ts = [STREAMING] \<or> ts = [REQUEST_RESPONSE])
   \<and> (getMainDefinition (query a) = Inr da \<and> getMainDefinition (query b) = Inr db \<and>
       main_kind da = main_kind db \<and> main_operation da = main_operation db \<longrightarrow>
        link getMainDefinition a = link getMainDefinition b)
   \<and> (query a = query b \<longrightarrow> link getMainDefinition a = link getMainDefinition b)
   \<and> link getMainDefinition
       (a\<lparr>variables := v, operationName := n, extensions := x, op_context := c\<rparr>)
     = link getMainDefinition a"
proof (intro conjI impI)
  show "link getMainDefinition a = Inr [STREAMING] \<or>
        link getMainDefinition a = Inr [REQUEST_RESPONSE]"
    if "getMainDefinition (query a) = Inr da"
    using that by (simp add: link_shape)
  show "link getMainDefinition a = Inl e" if "getMainDefinition (query a) = Inl e"
    using that by (simp add: link_shape)
  show "ts = [STREAMING] \<or> ts = [REQUEST_RESPONSE]" if "link getMainDefinition a = Inr ts"
    using that by (auto simp: link_shape split: sum.splits if_splits)
  show "link getMainDefinition a = link getMainDefinition b"
    if "getMainDefinition (query a) = Inr da \<and> getMainDefinition (query b) = Inr db \<and>
        main_kind da = main_kind db \<and> main_operation da = main_operation db"
    using that by (simp add: link_shape is_subscription_shape_def)
  show "link getMainDefinition a = link getMainDefinition b" if "query a = query b"
    using that by (simp add: link_shape)
  show "link getMainDefinition
          (a\<lparr>variables := v, operationName := n, extensions := x, op_context := c\<rparr>)
        = link getMainDefinition a"
    by (simp add: link_shape)
qed

theorem link_exactly_one_transport_witness:
  "link library_getMainDefinition
     (example_operation (document [subscription_definition]) (JObj [(''pollId'', JNum 1)]))
     = Inr [STREAMING]
   \<and> link library_getMainDefinition
       (example_operation (document [subscription_definition]) (JObj [(''pollId'', JNum 1)]))
     = link library_getMainDefinition
         (example_operation
            (document [JObj [(''operation'', JStr ''subscription''),
                             (''kind'', JStr ''OperationDefinition''),
                             (''name'', JStr ''getResult'')]])
            (JObj [(''pollId'', JNum 2)]))
   \<and> link library_getMainDefinition (example_operation JUndefined JNull)
     = Inl InvariantError"
  using link_exactly_one_transport
          [where getMainDefinition = library_getMainDefinition
             and a = "example_operation (document [subscription_definition])
                        (JObj [(''pollId'', JNum 1)])"
             and b = "example_operation
                        (document [JObj [(''operation'', JStr ''subscription''),
                                         (''kind'', JStr ''OperationDefinition''),
                                         (''name'', JStr ''getResult'')]])
                        (JObj [(''pollId'', JNum 2)])"
             and da = subscription_definition
             and db = "JObj [(''operation'', JStr ''subscription''),
                             (''kind'', JStr ''OperationDefinition''),
                             (''name'', JStr ''getResult'')]"
             and e = InvariantError and ts = "[STREAMING]"]
        link_exactly_one_transport
          [where getMainDefinition = library_getMainDefinition
             and a = "example_operation JUndefined JNull"
             and b = "example_operation JUndefined (JNum 1)"
             and da = JNull and db = JNull and e = InvariantError and ts = "[]"]
  by (simp add: link_shape example_defs)

text \<open>
  C6. The classifier's answer is a function of the kind and the operation type of the main
  definition alone: two operations whose main definitions agree on both get the same
  answer, whatever their variables, names, extensions and contexts are, and changing those
  of one operation does not change its answer. (The classifier is a function of its
  arguments, so it reads and writes no other state.)
\<close>

theorem splitter_depends_on_shape_only:
  assumes "getMainDefinition (query a) = Inr da"
    and "getMainDefinition (query b) = Inr db"
    and "main_kind da = main_kind db"
    and "main_operation da = main_operation db"
  shows "splitter getMainDefinition a = splitter getMainDefinition b
         \<and> splitter getMainDefinition
             (a\<lparr>variables := v, operationName := n, extensions := x, op_context := c\<rparr>)
           = splitter getMainDefinition a"
  using assms by (simp add: splitter_shape is_subscription_shape_def)

theorem splitter_depends_on_shape_only_witness:
  "splitter library_getMainDefinition
     \<lparr>query = document [mutation_definition], variables = JObj [(''optionId'', JNum 7)],
      operationName = JStr ''vote'', extensions = JObj [],
      op_context = JObj [(''headers'', JObj [(''x-user'', JStr ''a'')])]\<rparr>
   = splitter library_getMainDefinition
     \<lparr>query = document [mutation_definition], variables = JObj [(''optionId'', JNum 9)],
      operationName = JUndefined, extensions = JNull,
      op_context = JObj [(''headers'', JObj [(''x-user'', JStr ''b'')])]\<rparr>"
  using splitter_depends_on_shape_only
          [where getMainDefinition = library_getMainDefinition
             and a = "\<lparr>query = document [mutation_definition],
                       variables = JObj [(''optionId'', JNum 7)],
                       operationName = JStr ''vote'', extensions = JObj [],
                       op_context = JObj [(''headers'', JObj [(''x-user'', JStr ''a'')])]\<rparr>"
             and b = "\<lparr>query = document [mutation_definition],
                       variables = JObj [(''optionId'', JNum 9)],
                       operationName = JUndefined, extensions = JNull,
                       op_context = JObj [(''headers'', JObj [(''x-user'', JStr ''b'')])]\<rparr>"
             and da = mutation_definition and db = mutation_definition]
  by (simp add: library_lookup_mutation)

text \<open>
  C10, as stated, fails: on an operation whose query is no document at all (no main
  definition can be extracted) the classifier returns no boolean. The lookup raises before
  \<open>|| {}\<close> is evaluated, and \<open>splitter\<close> raises with it.
\<close>

theorem splitter_not_a_document_counterexample:
  "splitter library_getMainDefinition (example_operation JUndefined JNull)
     = Inl InvariantError
   \<and> splitter library_getMainDefinition (example_operation JUndefined JNull) \<noteq> Inr True
   \<and> splitter library_getMainDefinition (example_operation JUndefined JNull) \<noteq> Inr False"
  by (simp add: splitter_shape example_defs)

text \<open>
  C10, amended. Whenever the lookup returns, whatever it returns (\<open>null\<close> and
  \<open>undefined\<close> included), the classifier returns a boolean without raising, because the
  value it destructures, \<open>getMainDefinition(query) || {}\<close>, is never \<open>undefined\<close> or
  \<open>null\<close>. The classifier raises exactly when the lookup raises, and then the lookup's
  exception: it adds none of its own.
\<close>

theorem splitter_total:
  "(getMainDefinition (query opn) = Inr d \<longrightarrow>
      (\<exists>b. splitter getMainDefinition opn = Inr b)
      \<and> js_or d (JObj []) \<noteq> JUndefined
      \<and> js_or d (JObj []) \<noteq> JNull)
   \<and> (splitter getMainDefinition opn = Inl e) = (getMainDefinition (query opn) = Inl e)"
  by (auto simp: splitter_shape js_or_empty_object_defined split: sum.splits)

theorem splitter_total_witness:
  "splitter library_getMainDefinition
     (example_operation (document [subscription_definition]) JNull) = Inr True
   \<and> splitter (\<lambda>doc. Inr JNull) (example_operation JNull JNull) = Inr False
   \<and> splitter (\<lambda>doc. Inr JUndefined) (example_operation JNull JNull) \<noteq> Inl TypeError"
  using splitter_total
          [where getMainDefinition = library_getMainDefinition
             and opn = "example_operation (document [subscription_definition]) JNull"
             and d = subscription_definition and e = TypeError]
        splitter_total
          [where getMainDefinition = "\<lambda>doc. Inr JNull"
             and opn = "example_operation JNull JNull" and d = JNull and e = TypeError]
        splitter_total
          [where getMainDefinition = "\<lambda>doc. Inr JUndefined"
             and opn = "example_operation JNull JNull" and d = JUndefined and e = TypeError]
  by (simp add: splitter_shape example_defs)

subsection \<open>Endpoints\<close>

text \<open>
  C2. On a page loaded over plain HTTP, the host name \<open>example.test\<close> gives the streaming
  URI \<open>ws://example.test/v1/graphql\<close>, as stated, but the request/response URI
  \<open>https://example.test/v1/graphql\<close>, not \<open>http://example.test/v1/graphql\<close>: the base
  scheme passed to \<open>scheme\<close> is "https", not "http".
\<close>

theorem endpoints_plain_page_example:
  "wsURI_of ''http:'' ''example.test'' = ''ws://example.test/v1/graphql''
   \<and> httpURL_of ''http:'' ''example.test'' = ''https://example.test/v1/graphql''
   \<and> httpURL_of ''http:'' ''example.test'' \<noteq> ''http://example.test/v1/graphql''"
  by (simp add: wsURI_of_def httpURL_of_def scheme_def)

text \<open>
  C3. On a page loaded over HTTPS, the host name \<open>example.test\<close> gives the streaming URI
  \<open>wss://example.test/v1/graphql\<close>, as stated, but the request/response URI
  \<open>httpss://example.test/v1/graphql\<close>, not \<open>https://example.test/v1/graphql\<close>: the
  suffix "s" is appended to the base scheme "https".
\<close>

theorem endpoints_encrypted_page_example:
  "wsURI_of ''https:'' ''example.test'' = ''wss://example.test/v1/graphql''
   \<and> httpURL_of ''https:'' ''example.test'' = ''httpss://example.test/v1/graphql''
   \<and> httpURL_of ''https:'' ''example.test'' \<noteq> ''https://example.test/v1/graphql''"
  by (simp add: wsURI_of_def httpURL_of_def scheme_def)

text \<open>
  C8. For every page protocol the request/response URL is the scheme, "://", the host and
  "/v1/graphql", and its scheme (the part before the first colon) is "httpss" when the
  protocol is "https:" and "https" otherwise; so the URL, for any host and for the
  module's own endpoint, begins with "https" and never with "http://".
\<close>

theorem httpURL_scheme_begins_https:
  "(protocol = ''https:'' \<longrightarrow>
      scheme protocol ''https'' = ''httpss''
      \<and> httpURL_of protocol endpoint = ''httpss://'' @ endpoint @ ''/v1/graphql''
      \<and> httpURL protocol = ''httpss://genuine-macaw-22.hasura.app/v1/graphql''
      \<and> takeWhile (\<lambda>ch. ch \<noteq> CHR '':'') (httpURL_of protocol endpoint) = ''httpss'')
   \<and> (protocol \<noteq> ''https:'' \<longrightarrow>
      scheme protocol ''https'' = ''https''
      \<and> httpURL_of protocol endpoint = ''https://'' @ endpoint @ ''/v1/graphql''
      \<and> httpURL protocol = ''https://genuine-macaw-22.hasura.app/v1/graphql''
      \<and> takeWhile (\<lambda>ch. ch \<noteq> CHR '':'') (httpURL_of protocol endpoint) = ''https'')
   \<and> take 5 (httpURL_of protocol endpoint) = ''https''
   \<and> take 7 (httpURL_of protocol endpoint) \<noteq> ''http://''
   \<and> take 5 (httpURL protocol) = ''https''
   \<and> take 7 (httpURL protocol) \<noteq> ''http://''"
  by (simp add: httpURL_def httpURL_of_def scheme_def GRAPHQL_ENDPOINT_def)

theorem httpURL_scheme_begins_https_witness:
  "scheme ''https:'' ''https'' = ''httpss''
   \<and> scheme ''http:'' ''https'' = ''https''
   \<and> httpURL_of ''https:'' ''example.test'' = ''httpss://example.test/v1/graphql''
   \<and> httpURL_of ''http:'' ''example.test'' = ''https://example.test/v1/graphql''
   \<and> httpURL ''https:'' = ''httpss://genuine-macaw-22.hasura.app/v1/graphql''
   \<and> httpURL ''http:'' = ''https://genuine-macaw-22.hasura.app/v1/graphql''
   \<and> take 5 (httpURL ''http:'') = ''https''
   \<and> take 7 (httpURL ''https:'') \<noteq> ''http://''"
  using httpURL_scheme_begins_https [of "''https:''" "''example.test''"]
        httpURL_scheme_begins_https [of "''http:''" "''example.test''"]
  by simp

text \<open>
  C9. The encryption check compares the page protocol with the string "https:" for
  equality: for every other protocol, "http:", "file:" and "about:" among them, \<open>scheme\<close>
  returns its argument unchanged, so both URIs carry their base scheme.
\<close>

theorem scheme_unchanged_unless_https:
  assumes "protocol \<noteq> ''https:''"
  shows "scheme protocol proto = proto
         \<and> wsURI_of protocol endpoint = ''ws'' @ ''://'' @ endpoint @ ''/v1/graphql''
         \<and> httpURL_of protocol endpoint = ''https'' @ ''://'' @ endpoint @ ''/v1/graphql''"
  using assms by (simp add: wsURI_of_def httpURL_of_def scheme_plain)

theorem scheme_unchanged_unless_https_witness:
  "scheme ''http:'' ''ws'' = ''ws''
   \<and> scheme ''file:'' ''https'' = ''https''
   \<and> scheme ''about:'' ''ws'' = ''ws''
   \<and> scheme ''HTTPS:'' ''ws'' = ''ws''
   \<and> wsURI_of ''file:'' ''example.test'' = ''ws://example.test/v1/graphql''"
  using scheme_unchanged_unless_https [of "''http:''" "''ws''" "''example.test''"]
        scheme_unchanged_unless_https [of "''file:''" "''https''" "''example.test''"]
        scheme_unchanged_unless_https [of "''about:''" "''ws''" "''example.test''"]
        scheme_unchanged_unless_https [of "''HTTPS:''" "''ws''" "''example.test''"]
  by simp

end
